theory Spec2Isabelle
  imports Complex_Main
begin

section \<open>Data model\<close>

text \<open>
  The embedded source is the \<open>Search\<close> component of
  \<open>src/vectara-docusaurus-search/src/components/search/SearchInput.tsx\<close>
  (the second module of that file, lines 57 to 327).
\<close>

text \<open>
  Modelled from the spec: the type \<open>DeserializedSearchResult\<close> is imported from
  \<open>./types\<close>, which is not among the sources. The spec gives its shape as
  \<open>{url, snippet:{pre,text,post}, score?}\<close>; the snippet's field \<open>text\<close> is
  named \<open>matched\<close> here.
\<close>

record Snippet =
  pre :: string
  matched :: string
  post :: string

record DeserializedSearchResult =
  url :: string
  snippet :: Snippet
  score :: "real option"

text \<open>
  The component's props (lines 87 to 103). Optional props are options; \<open>historySize\<close>
  is a count of searches, a natural number.
\<close>

record Props =
  customerId :: string
  apiKey :: string
  corpusId :: string
  apiUrl :: "string option"
  historySize :: "nat option"

text \<open>
  Line 113: the destructuring default \<open>historySize = 10\<close> applies when the prop is
  omitted (undefined).
\<close>

definition Search_historySize :: "Props \<Rightarrow> nat" where
  "Search_historySize p = (case historySize p of None \<Rightarrow> 10 | Some n \<Rightarrow> n)"

text \<open>
  Lines 125 to 128: the template string \<open>`${customerId}-${corpusId}-${apiKey}`\<close> and
  the identifier computed from it. \<open>getUuid\<close> is the external package
  \<open>uuid-by-string\<close>; it is a parameter of the model.
\<close>

definition searchKey :: "Props \<Rightarrow> string" where
  "searchKey p = customerId p @ ''-'' @ corpusId p @ ''-'' @ apiKey p"

definition searchId :: "(string \<Rightarrow> string) \<Rightarrow> Props \<Rightarrow> string" where
  "searchId getUuid p = getUuid (searchKey p)"

section \<open>History store\<close>

text \<open>
  Modelled from the spec: the hook \<open>useSearchHistory\<close> (imported from
  \<open>./useSearchHistory\<close>) is not among the sources. The spec describes it as a
  key-value store keyed by the namespace identifier, holding per namespace a capped
  list of past query strings with the operations \<open>getPreviousSearches(): string[]\<close>
  and \<open>addPreviousSearch(query: string): void\<close>; inserting beyond capacity evicts the
  oldest entries, which stand first.
\<close>

type_synonym storage = "string \<rightharpoonup> string list"

text \<open>
  Modelled from the spec: \<open>getPreviousSearches\<close> of the missing hook, the list
  stored under the namespace, oldest entry first; empty when nothing is stored.
\<close>

definition getPreviousSearches :: "string \<Rightarrow> storage \<Rightarrow> string list" where
  "getPreviousSearches ns st = (case st ns of None \<Rightarrow> [] | Some h \<Rightarrow> h)"

text \<open>
  Modelled from the spec: the eviction of the missing hook. A list longer than the
  capacity loses its oldest entries until it fits.
\<close>

definition evictOldest :: "nat \<Rightarrow> string list \<Rightarrow> string list" where
  "evictOldest capacity h = drop (length h - capacity) h"

text \<open>
  Modelled from the spec: \<open>addPreviousSearch\<close> of the missing hook. The query is
  appended to the namespace's list and the list is capped.
\<close>

definition addPreviousSearch :: "string \<Rightarrow> nat \<Rightarrow> string \<Rightarrow> storage \<Rightarrow> storage" where
  "addPreviousSearch ns capacity query st =
     st(ns \<mapsto> evictOldest capacity (getPreviousSearches ns st @ [query]))"

section \<open>Widget state\<close>

text \<open>
  Lines 130 to 133: the two functions that \<open>useSearchHistory(searchId, historySize)\<close>
  returns to the component, as functions on the persisted store. The handlers below
  take them as given, whatever the hook's implementation is.
\<close>

record Env =
  env_getPreviousSearches :: "storage \<Rightarrow> string list"
  env_addPreviousSearch :: "string \<Rightarrow> storage \<Rightarrow> storage"

text \<open>
  Modelled from the spec: the hook itself, with the store's operations above bound to
  the namespace and the capacity it is called with.
\<close>

definition useSearchHistory :: "string \<Rightarrow> nat \<Rightarrow> Env" where
  "useSearchHistory ns capacity =
     \<lparr>env_getPreviousSearches = getPreviousSearches ns,
      env_addPreviousSearch = addPreviousSearch ns capacity\<rparr>"

text \<open>Lines 108 to 133: what the component body passes to the hook.\<close>

definition Search_env :: "(string \<Rightarrow> string) \<Rightarrow> Props \<Rightarrow> Env" where
  "Search_env getUuid p = useSearchHistory (searchId getUuid p) (Search_historySize p)"

text \<open>
  The state the handlers read and write. The first six fields are the component's
  React state and refs (lines 115, 135, 139, 141, 142, 143); the selection is a
  JavaScript number or null, an integer here, and \<open>selectedResultRef\<close> holds the
  index of the row the DOM ref points to. \<open>searchResults\<close> and
  \<open>selectedResultIndex\<close> are React's current state, every queued update applied.
  \<open>renderedResults\<close> and \<open>renderedIndex\<close> are the values of these two that the
  last render saw: the ones the closure of \<open>onKeyDown\<close> (\<open>useCallback\<close>, lines 186
  to 221) reads as \<open>searchResults\<close> and \<open>selectedResultIndex\<close>, and the ones
  displayed. The remaining fields are the environment the handlers act on:
  \<^item> \<open>localHistory\<close>: the persisted history store;
  \<^item> \<open>awaiting\<close>: the invocations of \<open>sendSearchQuery\<close> suspended at the
    \<open>await\<close> of line 160, each with its local \<open>searchId\<close> and the query whose
    fetch it issued;
  \<^item> \<open>debounced\<close>: the calls handed to the debounced function (line 183) whose
    timer has not fired yet;
  \<^item> \<open>opened\<close>: the urls passed to \<open>window.open(_, "_self")\<close>;
  \<^item> \<open>unhandled\<close>: the reasons of rejected promises that no handler was attached to.
\<close>

record widget =
  searchResults :: "DeserializedSearchResult list"
  selectedResultIndex :: "int option"
  isOpen :: bool
  selectedResultRef :: "int option"
  renderedResults :: "DeserializedSearchResult list"
  renderedIndex :: "int option"
  queryRef :: string
  searchCount :: nat
  localHistory :: storage
  awaiting :: "(nat \<times> string) list"
  debounced :: "string list"
  opened :: "string list"
  unhandled :: "string list"

definition initial :: "storage \<Rightarrow> widget" where
  "initial st =
     \<lparr>searchResults = [], selectedResultIndex = None, isOpen = False,
      selectedResultRef = None, renderedResults = [], renderedIndex = None,
      queryRef = [], searchCount = 0, localHistory = st,
      awaiting = [], debounced = [], opened = [], unhandled = []\<rparr>"

section \<open>Handlers\<close>

text \<open>How a promise ends: fulfilled, or rejected with a reason.\<close>

datatype promise = Fulfilled | Rejected string

text \<open>
  \<open>sendSearchQuery\<close>, lines 151 to 158: the part that runs inside the call, up to
  the \<open>await\<close>. An empty query returns at once. Otherwise the counter is
  pre-incremented, its new value is the invocation's local \<open>searchId\<close>, the query is
  added to the history, and the fetch is issued.
\<close>

definition sendSearchQuery_call :: "Env \<Rightarrow> string \<Rightarrow> widget \<Rightarrow> widget" where
  "sendSearchQuery_call env query s =
     (if length query = 0 then s
      else
        let localId = searchCount s + 1;
            s1 = s\<lparr>searchCount := localId\<rparr>;
            s2 = s1\<lparr>localHistory := env_addPreviousSearch env query (localHistory s1)\<rparr>
        in s2\<lparr>awaiting := awaiting s2 @ [(localId, query)]\<rparr>)"

text \<open>
  \<open>sendSearchQuery\<close>, lines 160 to 166: the continuation of the invocation with
  local \<open>searchId\<close> \<open>localId\<close> once its fetch has settled. A rejected fetch makes
  the \<open>await\<close> throw; the function has no \<open>try\<close>, so its own promise is rejected
  with the same reason and nothing after the \<open>await\<close> runs. A fulfilled fetch is
  applied only when \<open>localId\<close> still equals the counter.
\<close>

definition sendSearchQuery_resume ::
  "nat \<Rightarrow> string + DeserializedSearchResult list \<Rightarrow> widget \<Rightarrow> widget \<times> promise" where
  "sendSearchQuery_resume localId outcome s =
     (case outcome of
        Inl reason \<Rightarrow> (s, Rejected reason)
      | Inr results \<Rightarrow>
          (if localId = searchCount s
           then (s\<lparr>searchResults := results, selectedResultIndex := None,
                    selectedResultRef := None\<rparr>, Fulfilled)
           else (s, Fulfilled)))"

text \<open>Lines 223 to 227.\<close>

definition resetResults :: "widget \<Rightarrow> widget" where
  "resetResults s =
     s\<lparr>searchResults := [], selectedResultIndex := None, selectedResultRef := None\<rparr>"

text \<open>Lines 229 to 232.\<close>

definition closeModalAndResetResults :: "widget \<Rightarrow> widget" where
  "closeModalAndResetResults s = resetResults (s\<lparr>isOpen := False\<rparr>)"

text \<open>
  Lines 175 to 184. The call of the debounced function only schedules
  \<open>sendSearchQuery(currentQuery)\<close>.
\<close>

definition onChange :: "string \<Rightarrow> widget \<Rightarrow> widget" where
  "onChange currentQuery s =
     (let s1 = s\<lparr>queryRef := currentQuery\<rparr>;
          s2 = (if length currentQuery = 0 then resetResults s1 else s1)
      in s2\<lparr>debounced := debounced s2 @ [currentQuery]\<rparr>)"

text \<open>
  The two updater functions given to \<open>setSelectedResultIndex\<close> (lines 205 to 209
  and 213 to 217); \<open>n\<close> is \<open>searchResults.length\<close>.
\<close>

definition arrowDown :: "nat \<Rightarrow> int option \<Rightarrow> int option" where
  "arrowDown n prevValue =
     (case prevValue of
        None \<Rightarrow> Some 0
      | Some i \<Rightarrow> if i = int n - 1 then Some 0 else Some (i + 1))"

definition arrowUp :: "nat \<Rightarrow> int option \<Rightarrow> int option" where
  "arrowUp n prevValue =
     (case prevValue of
        None \<Rightarrow> Some (int n - 1)
      | Some i \<Rightarrow> if i = 0 then Some (int n - 1) else Some (i - 1))"

text \<open>
  \<open>onKeyDown\<close>, lines 186 to 221. The variables \<open>searchResults\<close> and
  \<open>selectedResultIndex\<close> of the handler are those of its closure, the values of the
  last render: they decide Enter (lines 193 and 194), the guard of line 200 and the
  length the updaters use (lines 206 and 215). The \<open>prevValue\<close> of an updater is
  React's current state. Reading \<open>.url\<close> of an element outside the array
  (\<open>undefined\<close>) throws a \<open>TypeError\<close>. \<open>evt.preventDefault()\<close> acts on the
  browser's event object only and is not part of the state. The promise that
  \<open>sendSearchQuery\<close> returns is dropped at line 196.
\<close>

datatype error = TypeError

definition onKeyDown :: "Env \<Rightarrow> string \<Rightarrow> widget \<Rightarrow> error + widget" where
  "onKeyDown env key s =
     (case (if key = ''Enter'' then
              (case renderedIndex s of
                 Some i \<Rightarrow>
                   (if 0 \<le> i \<and> i < int (length (renderedResults s))
                    then Inr (s\<lparr>opened := opened s @ [url (renderedResults s ! nat i)]\<rparr>)
                    else Inl TypeError)
               | None \<Rightarrow> Inr (sendSearchQuery_call env (queryRef s) s))
            else Inr s) of
        Inl e \<Rightarrow> Inl e
      | Inr s1 \<Rightarrow>
          (if length (renderedResults s) = 0 then Inr s1
           else
             let s2 = (if key = ''ArrowDown''
                       then s1\<lparr>selectedResultIndex :=
                               arrowDown (length (renderedResults s)) (selectedResultIndex s1)\<rparr>
                       else s1);
                 s3 = (if key = ''ArrowUp''
                       then s2\<lparr>selectedResultIndex :=
                               arrowUp (length (renderedResults s)) (selectedResultIndex s2)\<rparr>
                       else s2)
             in Inr s3))"

section \<open>Events\<close>

text \<open>
  The component is driven by the browser's event loop, one handler at a time. An event
  is a change of the input, a key press in the input, the firing or the superseding of
  a scheduled debounced call, the settling of the fetch awaited by the invocation with
  a given local \<open>searchId\<close> (\<open>Inl\<close> a rejection's reason, \<open>Inr\<close> the results),
  the opening of the modal (the button of line 283 or Ctrl+K, line 269), its closing
  (line 323), or a render of the component, which commits React's current state. Which
  scheduled call fires and when, when a fetch settles and when React renders is left
  open: every order of events is allowed, which covers every schedule the 500 ms
  timers, the network and React's scheduler can produce. In particular the updates
  made by a continuation of \<open>sendSearchQuery\<close> (lines 163 and 164) are queued, and a
  key press can be handled before the render that commits them.
\<close>

datatype event =
    Change string
  | KeyDown string
  | DebounceFire nat
  | DebounceDrop nat
  | FetchSettled nat "string + DeserializedSearchResult list"
  | OpenModal
  | CloseModal
  | Render

definition dropNth :: "nat \<Rightarrow> 'a list \<Rightarrow> 'a list" where
  "dropNth n xs = take n xs @ drop (Suc n) xs"

text \<open>
  Line 171: the timer of a scheduled call fires and runs
  \<open>sendSearchQuery(query)\<close>; the promise it returns is dropped.
\<close>

definition debounceFire :: "Env \<Rightarrow> nat \<Rightarrow> widget \<Rightarrow> widget" where
  "debounceFire env n s =
     (if n < length (debounced s)
      then sendSearchQuery_call env (debounced s ! n)
             (s\<lparr>debounced := dropNth n (debounced s)\<rparr>)
      else s)"

text \<open>A scheduled call that a later call of the debounced function superseded.\<close>

definition debounceDrop :: "nat \<Rightarrow> widget \<Rightarrow> widget" where
  "debounceDrop n s = s\<lparr>debounced := dropNth n (debounced s)\<rparr>"

text \<open>
  The fetch of a suspended invocation settles and the invocation resumes. Its promise
  was dropped by both callers (lines 171 and 196), so a rejection of it is unhandled.
\<close>

definition fetchSettled ::
  "nat \<Rightarrow> string + DeserializedSearchResult list \<Rightarrow> widget \<Rightarrow> widget" where
  "fetchSettled localId outcome s =
     (if localId \<in> set (map fst (awaiting s))
      then
        (case sendSearchQuery_resume localId outcome
                (s\<lparr>awaiting := filter (\<lambda>p. fst p \<noteq> localId) (awaiting s)\<rparr>) of
           (s1, Fulfilled) \<Rightarrow> s1
         | (s1, Rejected reason) \<Rightarrow> s1\<lparr>unhandled := unhandled s1 @ [reason]\<rparr>)
      else s)"

text \<open>
  A render, lines 108 to 327 run again: the closures are rebuilt over React's current
  state, and at the commit React points \<open>selectedResultRef\<close> to the rendered row
  whose index is the selection (lines 243 to 246), and to null when no row has it.
\<close>

definition render :: "widget \<Rightarrow> widget" where
  "render s =
     s\<lparr>renderedResults := searchResults s,
       renderedIndex := selectedResultIndex s,
       selectedResultRef :=
         (case selectedResultIndex s of
            None \<Rightarrow> None
          | Some i \<Rightarrow>
              if 0 \<le> i \<and> i < int (length (searchResults s)) then Some i else None)\<rparr>"

text \<open>
  One event. An exception thrown by \<open>onKeyDown\<close> aborts the handler; it throws
  before any write, so the state is as before.
\<close>

fun step :: "Env \<Rightarrow> event \<Rightarrow> widget \<Rightarrow> widget" where
  "step env (Change q) s = onChange q s"
| "step env (KeyDown k) s = (case onKeyDown env k s of Inl e \<Rightarrow> s | Inr s1 \<Rightarrow> s1)"
| "step env (DebounceFire n) s = debounceFire env n s"
| "step env (DebounceDrop n) s = debounceDrop n s"
| "step env (FetchSettled localId outcome) s = fetchSettled localId outcome s"
| "step env OpenModal s = s\<lparr>isOpen := True\<rparr>"
| "step env CloseModal s = closeModalAndResetResults s"
| "step env Render s = render s"

definition run :: "Env \<Rightarrow> event list \<Rightarrow> widget \<Rightarrow> widget" where
  "run env es s = foldl (\<lambda>t e. step env e t) s es"

text \<open>The events \<open>es\<close> with a render after each of them.\<close>

definition withRenders :: "event list \<Rightarrow> event list" where
  "withRenders es = concat (map (\<lambda>e. [e, Render]) es)"

text \<open>A selection that is null or an index into a list of \<open>n\<close> rows.\<close>

definition validIndex :: "nat \<Rightarrow> int option \<Rightarrow> bool" where
  "validIndex n sel = (case sel of None \<Rightarrow> True | Some i \<Rightarrow> 0 \<le> i \<and> i < int n)"

text \<open>The selection is null or an index into the results.\<close>

definition validSelection :: "widget \<Rightarrow> bool" where
  "validSelection s = validIndex (length (searchResults s)) (selectedResultIndex s)"

text \<open>The closures are those of a render of the current state.\<close>

definition fresh :: "widget \<Rightarrow> bool" where
  "fresh s = (renderedResults s = searchResults s \<and> renderedIndex s = selectedResultIndex s)"

section \<open>Concrete inputs\<close>

text \<open>Inputs at which the theorems below are evaluated.\<close>

definition exEnv :: Env where
  "exEnv = useSearchHistory ''ns'' 10"

definition exResult :: "string \<Rightarrow> DeserializedSearchResult" where
  "exResult u =
     \<lparr>url = u, snippet = \<lparr>pre = ''see '', matched = u, post = ''.''\<rparr>, score = None\<rparr>"

definition exThree :: "DeserializedSearchResult list" where
  "exThree = [exResult ''/r0'', exResult ''/r1'', exResult ''/r2'']"

text \<open>
  A state the event loop reaches with three results shown and the last one selected,
  and one it reaches with the text \<open>a\<close> typed and no results yet.
\<close>

definition exSelected :: widget where
  "exSelected =
     run exEnv
       (withRenders [OpenModal, Change ''a'', KeyDown ''Enter'',
                     FetchSettled 1 (Inr exThree), KeyDown ''ArrowUp''])
       (initial Map.empty)"

definition exTyped :: widget where
  "exTyped = run exEnv (withRenders [OpenModal, Change ''a'']) (initial Map.empty)"

text \<open>
  Three results are shown; a second query is submitted with Enter and its response, an
  empty list, arrives; ArrowDown is pressed before React has rendered that response;
  then React renders.
\<close>

definition exRace :: "event list" where
  "exRace =
     withRenders [OpenModal, Change ''a'', KeyDown ''Enter'', FetchSettled 1 (Inr exThree),
                  Change ''ab'', KeyDown ''Enter'']
     @ [FetchSettled 2 (Inr []), KeyDown ''ArrowDown'', Render]"

text \<open>Two widget configurations that differ in customer and corpus.\<close>

definition exPropsA :: Props where
  "exPropsA =
     \<lparr>customerId = ''a-b'', apiKey = ''k'', corpusId = ''c'', apiUrl = None,
      historySize = None\<rparr>"

definition exPropsB :: Props where
  "exPropsB =
     \<lparr>customerId = ''a'', apiKey = ''k'', corpusId = ''b-c'', apiUrl = None,
      historySize = None\<rparr>"

text \<open>A sequence of calls of \<open>addPreviousSearch\<close> in one namespace.\<close>

definition addPreviousSearches :: "string \<Rightarrow> nat \<Rightarrow> string list \<Rightarrow> storage \<Rightarrow> storage" where
  "addPreviousSearches ns capacity qs st =
     foldl (\<lambda>t q. addPreviousSearch ns capacity q t) st qs"

section \<open>Basic facts\<close>

lemmas handler_defs = sendSearchQuery_call_def sendSearchQuery_resume_def resetResults_def
  closeModalAndResetResults_def onChange_def onKeyDown_def debounceFire_def debounceDrop_def
  fetchSettled_def

lemmas eval_defs = handler_defs render_def run_def withRenders_def initial_def exEnv_def
  exResult_def exThree_def useSearchHistory_def addPreviousSearch_def
  getPreviousSearches_def evictOldest_def dropNth_def arrowDown_def arrowUp_def
  validSelection_def validIndex_def Let_def

lemma run_Nil: "run env [] s = s"
  by (simp add: run_def)

lemma run_Cons: "run env (e # es) s = run env es (step env e s)"
  by (simp add: run_def)

lemma render_fields:
  "searchResults (render s) = searchResults s"
  "selectedResultIndex (render s) = selectedResultIndex s"
  "searchCount (render s) = searchCount s"
  "awaiting (render s) = awaiting s"
  "queryRef (render s) = queryRef s"
  "unhandled (render s) = unhandled s"
  "renderedResults (render s) = searchResults s"
  "renderedIndex (render s) = selectedResultIndex s"
  by (simp_all add: render_def)

lemma searchCount_call_nonempty:
  "q \<noteq> [] \<Longrightarrow> searchCount (sendSearchQuery_call env q s) = searchCount s + 1"
  by (simp add: sendSearchQuery_call_def Let_def)

lemma awaiting_call_nonempty:
  "q \<noteq> [] \<Longrightarrow>
   awaiting (sendSearchQuery_call env q s) = awaiting s @ [(searchCount s + 1, q)]"
  by (simp add: sendSearchQuery_call_def Let_def)

text \<open>The counter never decreases.\<close>

lemma searchCount_step: "searchCount s \<le> searchCount (step env e s)"
  by (cases e)
    (auto simp: handler_defs render_def Let_def
      split: sum.splits option.splits if_splits promise.splits prod.splits)

lemma searchCount_run: "searchCount s \<le> searchCount (run env es s)"
proof (induction es arbitrary: s)
  case Nil
  show ?case by (simp add: run_Nil)
next
  case (Cons e es)
  have "searchCount s \<le> searchCount (step env e s)" by (rule searchCount_step)
  also have "\<dots> \<le> searchCount (run env es (step env e s))" by (rule Cons.IH)
  finally show ?case by (simp add: run_Cons)
qed

lemma resume_stale:
  "localId \<noteq> searchCount t \<Longrightarrow>
   sendSearchQuery_resume localId (Inr r) t = (t, Fulfilled)"
  by (simp add: sendSearchQuery_resume_def)

lemma fetchSettled_stale:
  assumes "localId \<noteq> searchCount t"
  shows "searchResults (fetchSettled localId (Inr r) t) = searchResults t \<and>
     renderedResults (fetchSettled localId (Inr r) t) = renderedResults t \<and>
     selectedResultIndex (fetchSettled localId (Inr r) t) = selectedResultIndex t \<and>
     searchCount (fetchSettled localId (Inr r) t) = searchCount t \<and>
     awaiting (fetchSettled localId (Inr r) t)
       = filter (\<lambda>p. fst p \<noteq> localId) (awaiting t)"
proof (cases "localId \<in> set (map fst (awaiting t))")
  case True
  with assms show ?thesis by (simp add: fetchSettled_def sendSearchQuery_resume_def)
next
  case False
  then have "filter (\<lambda>p. fst p \<noteq> localId) (awaiting t) = awaiting t"
    by (auto simp: filter_id_conv)
  with False show ?thesis by (simp add: fetchSettled_def)
qed

lemma fetchSettled_current:
  "(searchCount t, q) \<in> set (awaiting t) \<Longrightarrow>
   searchResults (fetchSettled (searchCount t) (Inr r) t) = r \<and>
   selectedResultIndex (fetchSettled (searchCount t) (Inr r) t) = None \<and>
   searchCount (fetchSettled (searchCount t) (Inr r) t) = searchCount t \<and>
   awaiting (fetchSettled (searchCount t) (Inr r) t)
     = filter (\<lambda>p. fst p \<noteq> searchCount t) (awaiting t)"
  by (force simp: fetchSettled_def sendSearchQuery_resume_def)

section \<open>Single calls\<close>

text \<open>
  C2. A call of \<open>sendSearchQuery\<close> with the empty string returns the state as it
  was: no fetch is issued (\<open>awaiting\<close>), no history entry is added
  (\<open>localHistory\<close>), the counter is not incremented, and the results and the selection
  are unchanged.
\<close>

theorem sendSearchQuery_empty_noop:
  "sendSearchQuery_call env [] s = s"
  by (simp add: sendSearchQuery_call_def)

text \<open>
  C10. When the \<open>historySize\<close> prop is omitted, the capacity the component passes to
  the history store is 10.
\<close>

theorem historySize_default_is_10:
  "historySize p = None \<Longrightarrow>
   Search_historySize p = 10
   \<and> Search_env getUuid p = useSearchHistory (searchId getUuid p) 10"
  by (simp add: Search_env_def Search_historySize_def)

theorem historySize_default_is_10_witness:
  "historySize exPropsA = None
   \<and> Search_historySize exPropsA = 10
   \<and> Search_env (\<lambda>x. x) exPropsA = useSearchHistory ''a-b-c-k'' 10"
proof -
  have h: "historySize exPropsA = None" by (simp add: exPropsA_def)
  have k: "searchId (\<lambda>x. x) exPropsA = ''a-b-c-k''"
    by (simp add: searchId_def searchKey_def exPropsA_def)
  from historySize_default_is_10 [OF h, of "\<lambda>x. x"] h k show ?thesis by simp
qed

section \<open>Sequence gating\<close>

text \<open>
  C1. Let Q1 and Q2 be non-empty queries, Q1 submitted by \<open>sendSearchQuery\<close> in any
  state \<open>s\<close>, and Q2 submitted after any events \<open>es1\<close> that leave Q1's fetch
  unsettled. Then Q1's local \<open>searchId\<close> is below Q2's; whenever Q1's response arrives
  afterwards (after any events \<open>es2\<close>) the counter check fails, the invocation
  changes nothing and the results, in React's state and as displayed, stay as they
  were; and when both responses arrive, in either order, the results are Q2's, in
  React's state and, after the next render, as displayed.
\<close>

theorem sequence_gating:
  assumes q1: "q1 \<noteq> []" and q2: "q2 \<noteq> []"
    and s1: "s1 = sendSearchQuery_call env q1 s"
    and pending: "(searchCount s1, q1) \<in> set (awaiting (run env es1 s1))"
    and s2: "s2 = sendSearchQuery_call env q2 (run env es1 s1)"
  shows "searchCount s1 < searchCount s2
       \<and> sendSearchQuery_resume (searchCount s1) (Inr r1) (run env es2 s2)
           = (run env es2 s2, Fulfilled)
       \<and> searchResults (step env (FetchSettled (searchCount s1) (Inr r1)) (run env es2 s2))
           = searchResults (run env es2 s2)
       \<and> renderedResults (step env (FetchSettled (searchCount s1) (Inr r1)) (run env es2 s2))
           = renderedResults (run env es2 s2)
       \<and> searchResults (run env [FetchSettled (searchCount s1) (Inr r1),
                                  FetchSettled (searchCount s2) (Inr r2)] s2) = r2
       \<and> searchResults (run env [FetchSettled (searchCount s2) (Inr r2),
                                  FetchSettled (searchCount s1) (Inr r1)] s2) = r2
       \<and> renderedResults (run env [FetchSettled (searchCount s1) (Inr r1),
                                    FetchSettled (searchCount s2) (Inr r2), Render] s2) = r2
       \<and> renderedResults (run env [FetchSettled (searchCount s2) (Inr r2),
                                    FetchSettled (searchCount s1) (Inr r1), Render] s2) = r2"
proof -
  let ?t1 = "run env es1 s1"
  let ?id1 = "searchCount s1" and ?id2 = "searchCount s2"
  have le1: "?id1 \<le> searchCount ?t1" by (rule searchCount_run)
  have c2: "?id2 = searchCount ?t1 + 1" using q2 s2 by (simp add: searchCount_call_nonempty)
  have lt: "?id1 < ?id2" using le1 c2 by simp
  have aw2: "awaiting s2 = awaiting ?t1 @ [(?id2, q2)]"
    using q2 s2 c2 by (simp add: awaiting_call_nonempty)
  have in1: "(?id1, q1) \<in> set (awaiting s2)" using pending aw2 by simp
  have in2: "(?id2, q2) \<in> set (awaiting s2)" using aw2 by simp
  have later: "?id1 \<noteq> searchCount (run env es2 s2)" for es2
    using searchCount_run [of s2 env es2] lt by simp
  have A: "sendSearchQuery_resume ?id1 (Inr r1) (run env es2 s2) = (run env es2 s2, Fulfilled)"
    by (rule resume_stale [OF later])
  have B: "searchResults (step env (FetchSettled ?id1 (Inr r1)) (run env es2 s2))
           = searchResults (run env es2 s2)"
    using fetchSettled_stale [OF later, of r1 es2] by simp
  have B': "renderedResults (step env (FetchSettled ?id1 (Inr r1)) (run env es2 s2))
           = renderedResults (run env es2 s2)"
    using fetchSettled_stale [OF later, of r1 es2] by simp
  have ne: "?id1 \<noteq> searchCount s2" using lt by simp
  \<comment> \<open>Q1's response first, then Q2's.\<close>
  let ?u = "step env (FetchSettled ?id1 (Inr r1)) s2"
  have u: "searchCount ?u = ?id2" "(?id2, q2) \<in> set (awaiting ?u)"
    using fetchSettled_stale [OF ne, of r1] in2 lt by simp_all
  have C: "searchResults (step env (FetchSettled ?id2 (Inr r2)) ?u) = r2"
    using fetchSettled_current [of ?u q2 r2] u by simp
  \<comment> \<open>Q2's response first, then Q1's.\<close>
  let ?v = "step env (FetchSettled ?id2 (Inr r2)) s2"
  have v: "searchCount ?v = ?id2" "searchResults ?v = r2"
    using fetchSettled_current [of s2 q2 r2] in2 by simp_all
  have ne': "?id1 \<noteq> searchCount ?v" using v lt by simp
  have D: "searchResults (step env (FetchSettled ?id1 (Inr r1)) ?v) = r2"
    using fetchSettled_stale [OF ne', of r1] v by simp
  show ?thesis using lt A B B' C D by (simp add: run_Cons run_Nil render_fields)
qed

theorem sequence_gating_witness:
  "''a'' \<noteq> [] \<and> ''b'' \<noteq> []
   \<and> (1, ''a'') \<in> set (awaiting (run exEnv [Change ''ab'']
         (sendSearchQuery_call exEnv ''a'' (initial Map.empty))))
   \<and> searchCount (sendSearchQuery_call exEnv ''a'' (initial Map.empty)) = 1
   \<and> searchCount (sendSearchQuery_call exEnv ''b''
        (run exEnv [Change ''ab''] (sendSearchQuery_call exEnv ''a'' (initial Map.empty)))) = 2
   \<and> searchResults
        (run exEnv [FetchSettled 1 (Inr exThree), FetchSettled 2 (Inr [exResult ''/b''])]
          (sendSearchQuery_call exEnv ''b''
            (run exEnv [Change ''ab''] (sendSearchQuery_call exEnv ''a'' (initial Map.empty)))))
       = [exResult ''/b'']
   \<and> searchResults
        (run exEnv [FetchSettled 2 (Inr [exResult ''/b'']), FetchSettled 1 (Inr exThree)]
          (sendSearchQuery_call exEnv ''b''
            (run exEnv [Change ''ab''] (sendSearchQuery_call exEnv ''a'' (initial Map.empty)))))
       = [exResult ''/b'']
   \<and> renderedResults
        (run exEnv [FetchSettled 1 (Inr exThree), FetchSettled 2 (Inr [exResult ''/b'']),
                    Render]
          (sendSearchQuery_call exEnv ''b''
            (run exEnv [Change ''ab''] (sendSearchQuery_call exEnv ''a'' (initial Map.empty)))))
       = [exResult ''/b'']"
proof -
  let ?s1 = "sendSearchQuery_call exEnv ''a'' (initial Map.empty)"
  let ?s2 = "sendSearchQuery_call exEnv ''b'' (run exEnv [Change ''ab''] ?s1)"
  have c1: "searchCount ?s1 = 1" by (simp add: eval_defs)
  have c2: "searchCount ?s2 = 2" by (simp add: eval_defs)
  have h1: "''a'' \<noteq> []" and h2: "''b'' \<noteq> []" by simp_all
  have h4: "(searchCount ?s1, ''a'') \<in> set (awaiting (run exEnv [Change ''ab''] ?s1))"
    by (simp add: eval_defs)
  from sequence_gating [where ?es2.0 = "[]" and ?r1.0 = exThree
      and ?r2.0 = "[exResult ''/b'']", OF h1 h2 refl h4 refl] h4 c1 c2
  show ?thesis by simp
qed

section \<open>Selection\<close>

lemma exSelected_fields:
  "searchResults exSelected = exThree" "selectedResultIndex exSelected = Some 2"
  "renderedResults exSelected = exThree" "renderedIndex exSelected = Some 2"
  by (simp_all add: exSelected_def eval_defs)

lemma exTyped_fields:
  "searchResults exTyped = []" "selectedResultIndex exTyped = None"
  "queryRef exTyped = ''a''" "searchCount exTyped = 0" "awaiting exTyped = []"
  "unhandled exTyped = []" "renderedResults exTyped = []" "renderedIndex exTyped = None"
  by (simp_all add: exTyped_def eval_defs)

text \<open>Every event that changes the results leaves the selection null.\<close>

lemma results_changed_step:
  "searchResults (step env e s) \<noteq> searchResults s \<Longrightarrow>
   selectedResultIndex (step env e s) = None"
  by (cases e)
    (auto simp: handler_defs render_def Let_def
      split: sum.splits option.splits if_splits promise.splits prod.splits)

text \<open>
  When the closures are fresh, that is when React has rendered since the last change
  of the results or the selection, a handler keeps the selection valid and does not
  throw.
\<close>

lemma valid_step_fresh:
  "fresh s \<Longrightarrow> validSelection s \<Longrightarrow> validSelection (step env e s)"
  by (cases e)
    (auto simp: handler_defs render_def fresh_def validSelection_def validIndex_def
      arrowDown_def arrowUp_def Let_def
      split: sum.splits option.splits if_splits promise.splits prod.splits)

lemma onKeyDown_no_throw:
  "fresh s \<Longrightarrow> validSelection s \<Longrightarrow> onKeyDown env key s \<noteq> Inl e"
  by (auto simp: onKeyDown_def fresh_def validSelection_def validIndex_def Let_def
      split: option.splits)

lemma valid_render: "validSelection (render s) = validSelection s"
  by (simp add: validSelection_def render_def)

lemma fresh_render: "fresh (render s)"
  by (simp add: fresh_def render_def)

lemma valid_run_withRenders:
  "fresh s \<Longrightarrow> validSelection s \<Longrightarrow>
   validSelection (run env (withRenders es) s) \<and> fresh (run env (withRenders es) s)"
proof (induction es arbitrary: s)
  case Nil
  then show ?case by (simp add: withRenders_def run_Nil)
next
  case (Cons e es)
  have w: "withRenders (e # es) = e # Render # withRenders es"
    by (simp add: withRenders_def)
  have "validSelection (render (step env e s))"
    using Cons.prems by (simp add: valid_render valid_step_fresh)
  then show ?case
    using Cons.IH [OF fresh_render, of "step env e s"] by (simp add: w run_Cons)
qed

lemma selection_valid_when_rendered:
  "validSelection (run env (withRenders es) (initial st))"
proof -
  have "fresh (initial st)" and "validSelection (initial st)"
    by (simp_all add: fresh_def validSelection_def validIndex_def initial_def)
  then show ?thesis using valid_run_withRenders by blast
qed

text \<open>
  C6. The claim is that in every reachable state \<open>selectedResultIndex\<close> is null or
  an index into the current \<open>searchResults\<close>. Evaluated on the events \<open>exRace\<close>:
  three results are shown, the response \<open>[]\<close> to a second query sets the results to
  \<open>[]\<close> and the selection to null (lines 163 and 164), and ArrowDown is handled
  before React renders. The handler's closure still holds the three results, so the
  guard of line 200 passes and the updater of line 205 maps null to 0. After the next
  render the results are \<open>[]\<close> and the selection is 0, in React's state and as
  rendered: the selection is not an index into the results, and Enter then throws a
  \<open>TypeError\<close> at line 194.
\<close>

theorem stale_closure_breaks_selection:
  "searchResults (run exEnv exRace (initial Map.empty)) = []
   \<and> selectedResultIndex (run exEnv exRace (initial Map.empty)) = Some 0
   \<and> renderedResults (run exEnv exRace (initial Map.empty)) = []
   \<and> renderedIndex (run exEnv exRace (initial Map.empty)) = Some 0
   \<and> \<not> validSelection (run exEnv exRace (initial Map.empty))
   \<and> onKeyDown exEnv ''Enter'' (run exEnv exRace (initial Map.empty)) = Inl TypeError"
proof -
  let ?t = "run exEnv exRace (initial Map.empty)"
  have f: "searchResults ?t = []" "selectedResultIndex ?t = Some 0"
    "renderedResults ?t = []" "renderedIndex ?t = Some 0"
    by (simp_all add: exRace_def eval_defs)
  have v: "\<not> validSelection ?t"
    by (simp add: validSelection_def validIndex_def f)
  have k: "onKeyDown exEnv ''Enter'' ?t = Inl TypeError"
    by (simp add: onKeyDown_def f)
  show ?thesis using f v k by simp
qed

text \<open>
  C8. Let N be the length of the results list that \<open>onKeyDown\<close> sees, N not 0, and
  let the selection be null or an index below N. Then \<open>onKeyDown\<close> changes only the
  selection: ArrowDown maps null to 0, \<open>i\<close> to \<open>i + 1\<close> when \<open>i < N - 1\<close> and to
  0 otherwise; ArrowUp maps null to \<open>N - 1\<close>, \<open>i\<close> to \<open>i - 1\<close> when \<open>0 < i\<close>
  and to \<open>N - 1\<close> otherwise. With N = 3 and the selection at 2, ArrowDown yields 0.
\<close>

theorem arrow_keys_cycle:
  assumes "renderedResults s \<noteq> []"
    and "validIndex (length (renderedResults s)) (selectedResultIndex s)"
  shows "onKeyDown env ''ArrowDown'' s
           = Inr (s\<lparr>selectedResultIndex :=
                     Some (case selectedResultIndex s of
                             None \<Rightarrow> 0
                           | Some i \<Rightarrow>
                               if i < int (length (renderedResults s)) - 1 then i + 1 else 0)\<rparr>)
       \<and> onKeyDown env ''ArrowUp'' s
           = Inr (s\<lparr>selectedResultIndex :=
                     Some (case selectedResultIndex s of
                             None \<Rightarrow> int (length (renderedResults s)) - 1
                           | Some i \<Rightarrow>
                               if 0 < i then i - 1 else int (length (renderedResults s)) - 1)\<rparr>)
       \<and> (length (renderedResults s) = 3 \<and> selectedResultIndex s = Some 2 \<longrightarrow>
            onKeyDown env ''ArrowDown'' s = Inr (s\<lparr>selectedResultIndex := Some 0\<rparr>))"
  using assms
  by (cases "selectedResultIndex s")
     (auto simp: onKeyDown_def arrowDown_def arrowUp_def validIndex_def Let_def)

theorem arrow_keys_cycle_witness:
  "renderedResults exSelected \<noteq> []
   \<and> validIndex (length (renderedResults exSelected)) (selectedResultIndex exSelected)
   \<and> length (renderedResults exSelected) = 3 \<and> selectedResultIndex exSelected = Some 2
   \<and> onKeyDown exEnv ''ArrowDown'' exSelected
       = Inr (exSelected\<lparr>selectedResultIndex := Some 0\<rparr>)
   \<and> onKeyDown exEnv ''ArrowUp'' exSelected
       = Inr (exSelected\<lparr>selectedResultIndex := Some 1\<rparr>)"
proof -
  have ne: "renderedResults exSelected \<noteq> []"
    by (simp add: exSelected_fields exThree_def)
  have v: "validIndex (length (renderedResults exSelected)) (selectedResultIndex exSelected)"
    by (simp add: validIndex_def exSelected_fields exThree_def)
  have l: "length (renderedResults exSelected) = 3"
    by (simp add: exSelected_fields exThree_def)
  from arrow_keys_cycle [OF ne v, of exEnv] ne v l show ?thesis
    by (simp add: exSelected_fields)
qed

section \<open>Key presses on an empty results list\<close>

text \<open>
  C4, as the code has it. When the results list that \<open>onKeyDown\<close> sees, the one of
  the last render, is empty, every key other than Enter is a no-op in \<open>onKeyDown\<close>.
  Enter is handled before the check of line 200: when the selection the handler sees
  is null, it calls \<open>sendSearchQuery\<close> with the stored raw text, which submits that
  text when it is non-empty and does nothing when it is empty.
\<close>

theorem keys_on_empty_results:
  assumes "renderedResults s = []"
  shows "(key \<noteq> ''Enter'' \<longrightarrow> onKeyDown env key s = Inr s)
       \<and> (renderedIndex s = None \<longrightarrow>
            onKeyDown env ''Enter'' s = Inr (sendSearchQuery_call env (queryRef s) s))
       \<and> (renderedIndex s = None \<and> queryRef s = [] \<longrightarrow>
            onKeyDown env ''Enter'' s = Inr s)"
  using assms by (simp add: onKeyDown_def sendSearchQuery_call_def)

theorem keys_on_empty_results_witness:
  "renderedResults exTyped = [] \<and> ''ArrowDown'' \<noteq> ''Enter''
   \<and> onKeyDown exEnv ''ArrowDown'' exTyped = Inr exTyped
   \<and> renderedIndex exTyped = None
   \<and> onKeyDown exEnv ''Enter'' exTyped = Inr (sendSearchQuery_call exEnv ''a'' exTyped)
   \<and> renderedResults (initial Map.empty) = [] \<and> renderedIndex (initial Map.empty) = None
   \<and> queryRef (initial Map.empty) = []
   \<and> onKeyDown exEnv ''Enter'' (initial Map.empty) = Inr (initial Map.empty)"
proof -
  have e: "renderedResults exTyped = []" and n: "renderedIndex exTyped = None"
    by (simp_all add: exTyped_fields)
  have e0: "renderedResults (initial Map.empty) = []"
    and n0: "renderedIndex (initial Map.empty) = None"
    and q0: "queryRef (initial Map.empty) = []"
    by (simp_all add: initial_def)
  have 1: "onKeyDown exEnv ''ArrowDown'' exTyped = Inr exTyped"
    using keys_on_empty_results [OF e, of "''ArrowDown''" exEnv] by simp
  have 2: "onKeyDown exEnv ''Enter'' exTyped = Inr (sendSearchQuery_call exEnv ''a'' exTyped)"
    using keys_on_empty_results [OF e, of "''ArrowDown''" exEnv] n
    by (simp add: exTyped_fields)
  have 3: "onKeyDown exEnv ''Enter'' (initial Map.empty) = Inr (initial Map.empty)"
    using keys_on_empty_results [OF e0, of "''ArrowDown''" exEnv] n0 q0 by blast
  show ?thesis using e n e0 n0 q0 1 2 3 by simp
qed

text \<open>
  C4 as stated fails: with no results shown and the text \<open>a\<close> typed, Enter is not a
  no-op. It increments the counter to 1 and issues the fetch for \<open>a\<close>.
\<close>

theorem enter_on_empty_results_submits:
  "searchResults exTyped = [] \<and> renderedResults exTyped = []
   \<and> onKeyDown exEnv ''Enter'' exTyped \<noteq> Inr exTyped
   \<and> map_sum id searchCount (onKeyDown exEnv ''Enter'' exTyped) = Inr 1
   \<and> map_sum id awaiting (onKeyDown exEnv ''Enter'' exTyped) = Inr [(1, ''a'')]"
proof -
  have k: "onKeyDown exEnv ''Enter'' exTyped = Inr (sendSearchQuery_call exEnv ''a'' exTyped)"
    by (simp add: onKeyDown_def exTyped_fields)
  have c: "searchCount (sendSearchQuery_call exEnv ''a'' exTyped) = 1"
    by (simp add: sendSearchQuery_call_def Let_def exTyped_fields)
  have a: "awaiting (sendSearchQuery_call exEnv ''a'' exTyped) = [(1, ''a'')]"
    by (simp add: sendSearchQuery_call_def Let_def exTyped_fields)
  have ne: "sendSearchQuery_call exEnv ''a'' exTyped \<noteq> exTyped"
    using c exTyped_fields(4) by (metis zero_neq_one)
  show ?thesis using k c a ne by (simp add: exTyped_fields)
qed

text \<open>
  Enter on an empty list with a selection that is not null, the state the events
  \<open>exRace\<close> end in, throws at line 194 and writes nothing.
\<close>

lemma enter_on_empty_with_selection_throws:
  "renderedResults s = [] \<Longrightarrow> renderedIndex s = Some i \<Longrightarrow>
   onKeyDown env ''Enter'' s = Inl TypeError \<and> step env (KeyDown ''Enter'') s = s"
  by (simp add: onKeyDown_def)

section \<open>Closing the modal\<close>

text \<open>
  C7, as the code has it. \<open>closeModalAndResetResults\<close> closes the modal, empties the
  results list and sets the selection (and the row ref) to null. It writes nothing
  else: the stored raw query text, the counter, the awaited fetches and the scheduled
  debounced calls are as before.
\<close>

theorem close_resets_results_only:
  "closeModalAndResetResults s
     = s\<lparr>isOpen := False, searchResults := [], selectedResultIndex := None,
         selectedResultRef := None\<rparr>
   \<and> queryRef (closeModalAndResetResults s) = queryRef s
   \<and> searchCount (closeModalAndResetResults s) = searchCount s
   \<and> awaiting (closeModalAndResetResults s) = awaiting s
   \<and> debounced (closeModalAndResetResults s) = debounced s"
  by (simp add: closeModalAndResetResults_def resetResults_def)

text \<open>
  C7 as stated fails: after typing \<open>a\<close> and closing, the stored raw text is still
  \<open>a\<close>, and an Enter press after reopening submits it.
\<close>

theorem close_keeps_query_text:
  "queryRef (closeModalAndResetResults exTyped) = ''a''
   \<and> queryRef (closeModalAndResetResults exTyped) \<noteq> []
   \<and> awaiting (run exEnv
        (withRenders [OpenModal, Change ''a'', CloseModal, OpenModal, KeyDown ''Enter''])
        (initial Map.empty)) = [(1, ''a'')]"
  by (simp add: exTyped_def eval_defs)

text \<open>
  In general: whatever text is stored when the modal closes, Enter after the next
  render and reopening submits it.
\<close>

lemma enter_after_reopen_submits_old_text:
  "queryRef s \<noteq> [] \<Longrightarrow>
   awaiting (run env [CloseModal, Render, OpenModal, Render, KeyDown ''Enter''] s)
     = awaiting s @ [(searchCount s + 1, queryRef s)]"
  by (simp add: run_def closeModalAndResetResults_def resetResults_def render_def
      onKeyDown_def sendSearchQuery_call_def Let_def)

section \<open>A fetch that rejects\<close>

text \<open>
  C3, as the code has it. When the fetch of a submitted query rejects, the continuation
  of \<open>sendSearchQuery\<close> writes nothing, so the results and the selection stay as they
  were; the rejection is not caught: the promise of \<open>sendSearchQuery\<close> is rejected
  with the same reason, and since its callers dropped it the rejection is unhandled.
\<close>

theorem rejected_fetch_changes_no_state:
  "sendSearchQuery_resume localId (Inl reason) s = (s, Rejected reason)
   \<and> searchResults (step env (FetchSettled localId (Inl reason)) s) = searchResults s
   \<and> selectedResultIndex (step env (FetchSettled localId (Inl reason)) s)
       = selectedResultIndex s
   \<and> (localId \<in> set (map fst (awaiting s)) \<longrightarrow>
        unhandled (step env (FetchSettled localId (Inl reason)) s) = unhandled s @ [reason])"
  by (simp add: sendSearchQuery_resume_def fetchSettled_def)

theorem rejected_fetch_changes_no_state_witness:
  "1 \<in> set (map fst (awaiting (step exEnv (KeyDown ''Enter'') exTyped)))
   \<and> unhandled (step exEnv (FetchSettled 1 (Inl ''Failed to fetch''))
        (step exEnv (KeyDown ''Enter'') exTyped)) = [''Failed to fetch'']
   \<and> searchResults (step exEnv (FetchSettled 1 (Inl ''Failed to fetch''))
        (step exEnv (KeyDown ''Enter'') exTyped)) = []"
proof -
  let ?s = "step exEnv (KeyDown ''Enter'') exTyped"
  have a: "awaiting ?s = [(1, ''a'')]" and u: "unhandled ?s = []"
    and r: "searchResults ?s = []"
    by (simp_all add: exTyped_def eval_defs)
  from rejected_fetch_changes_no_state [of 1 "''Failed to fetch''" ?s exEnv] a u r
  show ?thesis by simp
qed

text \<open>
  C3 as stated fails: the query \<open>a\<close> is submitted with Enter and its fetch rejects.
  The promise of \<open>sendSearchQuery\<close> ends rejected, and the rejection is recorded as
  unhandled.
\<close>

theorem rejected_fetch_is_not_caught:
  "snd (sendSearchQuery_resume 1 (Inl ''Failed to fetch'')
          (run exEnv (withRenders [OpenModal, Change ''a'', KeyDown ''Enter''])
             (initial Map.empty)))
     = Rejected ''Failed to fetch''
   \<and> unhandled (run exEnv
        (withRenders [OpenModal, Change ''a'', KeyDown ''Enter'',
                      FetchSettled 1 (Inl ''Failed to fetch'')]) (initial Map.empty))
     = [''Failed to fetch'']"
  by (simp add: eval_defs)

section \<open>Namespace identifiers\<close>

text \<open>
  C5. The claim is that widget instances with different
  \<open>(customerId, corpusId, apiKey)\<close> get different namespace identifiers. Evaluated on
  two instances that differ in customer and corpus: the template string of line 126 is
  \<open>a-b-c-k\<close> for both, so whatever \<open>getUuid\<close> computes, the identifiers are equal.
\<close>

theorem searchId_collision:
  "(\<forall>getUuid. searchId getUuid exPropsA = searchId getUuid exPropsB)
   \<and> customerId exPropsA \<noteq> customerId exPropsB
   \<and> corpusId exPropsA \<noteq> corpusId exPropsB
   \<and> searchKey exPropsA = ''a-b-c-k'' \<and> searchKey exPropsB = ''a-b-c-k''"
  by (simp add: searchId_def searchKey_def exPropsA_def exPropsB_def)

text \<open>
  With the history store as the spec describes it, the query one of the two instances
  submits is in the history the other one reads.
\<close>

lemma history_shared_on_collision:
  "env_getPreviousSearches (Search_env getUuid exPropsB)
     (localHistory (sendSearchQuery_call (Search_env getUuid exPropsA) ''q''
        (initial Map.empty)))
   = [''q'']"
  by (simp add: Search_env_def searchId_def searchKey_def exPropsA_def exPropsB_def
      Search_historySize_def eval_defs)

section \<open>The capped history\<close>

lemma evictOldest_twice:
  "evictOldest c (evictOldest c xs @ [q]) = evictOldest c (xs @ [q])"
  by (cases "length xs \<le> c") (auto simp: evictOldest_def Suc_diff_le)

lemma get_add:
  "getPreviousSearches ns (addPreviousSearch ns c q st)
     = evictOldest c (getPreviousSearches ns st @ [q])"
  by (simp add: getPreviousSearches_def addPreviousSearch_def)

lemma addPreviousSearches_snoc:
  "addPreviousSearches ns c (qs @ [q]) st
     = addPreviousSearch ns c q (addPreviousSearches ns c qs st)"
  by (simp add: addPreviousSearches_def)

lemma get_addPreviousSearches:
  "length (getPreviousSearches ns st) \<le> c \<Longrightarrow>
   getPreviousSearches ns (addPreviousSearches ns c qs st)
     = evictOldest c (getPreviousSearches ns st @ qs)"
proof (induction qs rule: rev_induct)
  case Nil
  then show ?case by (simp add: addPreviousSearches_def evictOldest_def)
next
  case (snoc q qs)
  then show ?case
    using evictOldest_twice [of c "getPreviousSearches ns st @ qs" q]
    by (simp add: addPreviousSearches_snoc get_add)
qed

text \<open>
  C9. Starting from a history within capacity, after any sequence of
  \<open>addPreviousSearch\<close> calls the history holds at most \<open>historySize\<close> entries: it is
  the old history followed by the added queries, with the oldest entries dropped from
  the front. Adding to a full history drops its first entry. With \<open>historySize = 2\<close>,
  adding \<open>a\<close>, \<open>b\<close>, \<open>c\<close> to the empty store leaves \<open>[b, c]\<close>.
\<close>

theorem history_capped:
  assumes "length (getPreviousSearches ns st) \<le> capacity"
  shows "length (getPreviousSearches ns (addPreviousSearches ns capacity qs st)) \<le> capacity
       \<and> getPreviousSearches ns (addPreviousSearches ns capacity qs st)
           = drop (length (getPreviousSearches ns st @ qs) - capacity)
               (getPreviousSearches ns st @ qs)
       \<and> (length (getPreviousSearches ns st) = capacity \<and> 0 < capacity \<longrightarrow>
            getPreviousSearches ns (addPreviousSearch ns capacity q st)
              = tl (getPreviousSearches ns st) @ [q])
       \<and> getPreviousSearches ns (addPreviousSearches ns 2 [''a'', ''b'', ''c''] Map.empty)
           = [''b'', ''c'']"
proof -
  have A: "getPreviousSearches ns (addPreviousSearches ns capacity qs st)
           = drop (length (getPreviousSearches ns st @ qs) - capacity)
               (getPreviousSearches ns st @ qs)"
    using get_addPreviousSearches [OF assms, of qs] by (simp add: evictOldest_def)
  have B: "length (getPreviousSearches ns (addPreviousSearches ns capacity qs st)) \<le> capacity"
    unfolding A by simp
  have C: "length (getPreviousSearches ns st) = capacity \<and> 0 < capacity \<longrightarrow>
            getPreviousSearches ns (addPreviousSearch ns capacity q st)
              = tl (getPreviousSearches ns st) @ [q]"
    by (cases "getPreviousSearches ns st") (auto simp: get_add evictOldest_def)
  have D: "getPreviousSearches ns (addPreviousSearches ns 2 [''a'', ''b'', ''c''] Map.empty)
           = [''b'', ''c'']"
    by (simp add: addPreviousSearches_def addPreviousSearch_def getPreviousSearches_def
        evictOldest_def)
  show ?thesis using A B C D by simp
qed

theorem history_capped_witness:
  "length (getPreviousSearches ''ns'' (Map.empty(''ns'' \<mapsto> [''a'', ''b'']))) \<le> 2
   \<and> getPreviousSearches ''ns''
        (addPreviousSearches ''ns'' 2 [''c''] (Map.empty(''ns'' \<mapsto> [''a'', ''b''])))
       = [''b'', ''c'']
   \<and> length (getPreviousSearches ''ns'' (Map.empty(''ns'' \<mapsto> [''a'', ''b'']))) = 2
   \<and> (0::nat) < 2
   \<and> getPreviousSearches ''ns''
        (addPreviousSearch ''ns'' 2 ''c'' (Map.empty(''ns'' \<mapsto> [''a'', ''b''])))
       = [''b'', ''c'']"
proof -
  have h: "length (getPreviousSearches ''ns'' (Map.empty(''ns'' \<mapsto> [''a'', ''b'']))) \<le> 2"
    by (simp add: getPreviousSearches_def)
  have g: "getPreviousSearches ''ns'' (Map.empty(''ns'' \<mapsto> [''a'', ''b''])) = [''a'', ''b'']"
    by (simp add: getPreviousSearches_def)
  from history_capped [OF h, of "[''c'']" "''c''"] h g show ?thesis by simp
qed

end
